theory Spec2Isabelle
  imports Complex_Main
begin

section \<open>Values, missing data and exceptions\<close>

text \<open>
  A float column of a pandas frame is a list of optional reals: \<open>None\<close> is NaN
  (a missing value). Prices of a PriceBar are never missing, so the raw OHLCV columns are
  plain lists of reals. A Python exception is a value carrying its class name and the text
  that \<open>str(e)\<close> returns; a computation that may raise returns \<open>py_exception + 'a\<close>.
\<close>

type_synonym series = "real option list"

datatype py_exception = Raised string string

fun exc_str :: "py_exception \<Rightarrow> string" where
  "exc_str (Raised cls msg) = msg"

definition isnan_any :: "real option list \<Rightarrow> bool" where
  \<comment> \<open>\<open>np.isnan(X).any()\<close> on one row of feature values\<close>
  "isnan_any X = list_ex (\<lambda>v. v = None) X"

section \<open>PriceBar sequences\<close>

record pdate =
  year :: int
  month :: nat
  day :: nat

text \<open>
  One row of the frame that the store adapter supplies: the index entry (the date) and the
  OHLCV columns. Prices are positive reals and the volume is a non-negative integer. The
  index is a datetime index, as the analyzers' \<open>index.month\<close> and the orchestrator's
  \<open>index.min().date()\<close> presuppose, so reading the calendar fields of a date never raises.
\<close>

record pricebar =
  date :: pdate
  Open :: real
  High :: real
  Low :: real
  Close :: real
  Volume :: nat

section \<open>The pandas operations the analyzers use\<close>

definition mean :: "real list \<Rightarrow> real" where
  "mean xs = sum_list xs / real (length xs)"

definition diff :: "real list \<Rightarrow> series" where
  \<comment> \<open>\<open>Series.diff()\<close>: the change from the previous row, missing in the first row\<close>
  "diff xs = map (\<lambda>i. if i = 0 then None else Some (xs ! i - xs ! (i - 1))) [0..<length xs]"

definition pct_change :: "real list \<Rightarrow> series" where
  \<comment> \<open>\<open>Series.pct_change()\<close> on a column of non-zero prices: missing in the first row\<close>
  "pct_change xs =
     map (\<lambda>i. if i = 0 then None else Some (xs ! i / xs ! (i - 1) - 1)) [0..<length xs]"

definition window :: "nat \<Rightarrow> nat \<Rightarrow> 'a list \<Rightarrow> 'a list" where
  \<comment> \<open>the \<open>w\<close> rows that end at row \<open>i\<close> (for \<open>w \<le> i + 1\<close>)\<close>
  "window w i xs = take w (drop (i + 1 - w) xs)"

definition rolling_mean :: "nat \<Rightarrow> real list \<Rightarrow> series" where
  \<comment> \<open>\<open>Series.rolling(w).mean()\<close> on a column without missing values: \<open>min_periods\<close> is
      the window, so a row with fewer than \<open>w\<close> rows up to it is missing\<close>
  "rolling_mean w xs =
     map (\<lambda>i. if w = 0 \<or> i + 1 < w then None else Some (mean (window w i xs)))
       [0..<length xs]"

definition series_rolling_mean :: "int \<Rightarrow> real list \<Rightarrow> py_exception + series" where
  \<comment> \<open>\<open>rolling(window=w)\<close> validates its argument\<close>
  "series_rolling_mean w xs =
     (if w < 0 then Inl (Raised ''ValueError'' ''window must be an integer 0 or greater'')
      else Inr (rolling_mean (nat w) xs))"

definition ewm_mean_adjust :: "real \<Rightarrow> real list \<Rightarrow> series" where
  \<comment> \<open>\<open>Series.ewm(alpha=a).mean()\<close> with the defaults \<open>adjust=True\<close>, \<open>min_periods=0\<close> on a
      column without missing values: the weighted mean of all rows so far, the row \<open>k\<close> steps
      back having weight \<open>(1 - a) ^ k\<close>\<close>
  "ewm_mean_adjust a xs =
     map (\<lambda>t. Some (sum_list (map (\<lambda>k. (1 - a) ^ k * xs ! (t - k)) [0..<Suc t])
                     / sum_list (map (\<lambda>k. (1 - a) ^ k) [0..<Suc t])))
       [0..<length xs]"

definition series_ewm_mean :: "int \<Rightarrow> real list \<Rightarrow> py_exception + series" where
  \<comment> \<open>\<open>Series.ewm(span=s).mean()\<close>: \<open>alpha = 2 / (s + 1)\<close>\<close>
  "series_ewm_mean s xs =
     (if s < 1 then Inl (Raised ''ValueError'' ''span must satisfy: span >= 1'')
      else Inr (ewm_mean_adjust (2 / (real_of_int s + 1)) xs))"

fun ewm_scan :: "real \<Rightarrow> real \<Rightarrow> real list \<Rightarrow> real list" where
  "ewm_scan a y [] = []"
| "ewm_scan a y (x # xs) = (let y' = (1 - a) * y + a * x in y' # ewm_scan a y' xs)"

definition ewm_mean_recursive :: "real \<Rightarrow> nat \<Rightarrow> real list \<Rightarrow> series" where
  \<comment> \<open>\<open>Series.ewm(alpha=a, min_periods=m, adjust=False).mean()\<close> on a column without
      missing values: \<open>y\<^sub>0 = x\<^sub>0\<close>, \<open>y\<^sub>t = (1 - a) y\<^sub>t\<^sub>-\<^sub>1 + a x\<^sub>t\<close>, and a row is missing
      while fewer than \<open>m\<close> rows have been seen\<close>
  "ewm_mean_recursive a m xs =
     (let ys = (case xs of [] \<Rightarrow> [] | x # rest \<Rightarrow> x # ewm_scan a x rest)
      in map (\<lambda>i. if i + 1 < m then None else Some (ys ! i)) [0..<length xs])"

definition tail_rows :: "int \<Rightarrow> 'a list \<Rightarrow> 'a list" where
  \<comment> \<open>\<open>df.tail(n)\<close>: the last \<open>n\<close> rows; no row for \<open>n = 0\<close>; for a negative \<open>n\<close>
      all rows but the first \<open>-n\<close>\<close>
  "tail_rows n xs =
     (if n = 0 then []
      else if 0 < n then drop (length xs - nat n) xs
      else drop (nat (- n)) xs)"

definition shift1 :: "'a option list \<Rightarrow> 'a option list" where
  \<comment> \<open>\<open>Series.shift(1)\<close>: every value moves one row down, the first row is missing\<close>
  "shift1 s = (if s = [] then [] else None # butlast s)"

definition where_positive :: "series \<Rightarrow> real list" where
  \<comment> \<open>\<open>s.where(s > 0, 0)\<close>: a comparison with NaN is false, so a missing value becomes 0\<close>
  "where_positive s = map (\<lambda>v. case v of None \<Rightarrow> 0 | Some d \<Rightarrow> if d > 0 then d else 0) s"

definition where_negative :: "series \<Rightarrow> real list" where
  \<comment> \<open>\<open>s.where(s < 0, 0)\<close>\<close>
  "where_negative s = map (\<lambda>v. case v of None \<Rightarrow> 0 | Some d \<Rightarrow> if d < 0 then d else 0) s"

section \<open>Indicator engine: \<open>technical_indicators.py\<close>\<close>

subsection \<open>The frame of a \<open>TechnicalIndicators\<close> object\<close>

text \<open>
  \<open>self.data\<close> is the PriceBar frame together with derived float columns. A derived column
  is named by a string, except that the names \<open>f'MA_{period}'\<close> and \<open>f'EMA_{period}'\<close> are
  the constructors \<open>MA period\<close> and \<open>EMA period\<close>: different periods are different names.
  The number of rows of the frame is the number of its bars.
\<close>

datatype column = Name string | MA int | EMA int

record tframe =
  bars :: "pricebar list"
  derived :: "column \<rightharpoonup> series"

subsection \<open>\<open>calculate_moving_averages\<close>\<close>

fun moving_averages_loop :: "int list \<Rightarrow> tframe \<Rightarrow> tframe \<Rightarrow> py_exception + tframe" where
  \<comment> \<open>\<open>for period in periods\<close>, reading \<open>self.data\<close> and updating \<open>result\<close>\<close>
  "moving_averages_loop [] self_data result = Inr result"
| "moving_averages_loop (period # periods) self_data result =
     (if period \<le> int (length (bars self_data)) then
        (case series_rolling_mean period (map Close (bars self_data)) of
           Inl e \<Rightarrow> Inl e
         | Inr ma \<Rightarrow>
             (case series_ewm_mean period (map Close (bars self_data)) of
                Inl e \<Rightarrow> Inl e
              | Inr ema \<Rightarrow>
                  moving_averages_loop periods self_data
                    (result\<lparr>derived := (derived result)(MA period \<mapsto> ma, EMA period \<mapsto> ema)\<rparr>)))
      else moving_averages_loop periods self_data result)"

definition calculate_moving_averages :: "int list \<Rightarrow> tframe \<Rightarrow> py_exception + tframe" where
  \<comment> \<open>\<open>result = self.data.copy()\<close>, then the loop\<close>
  "calculate_moving_averages periods self_data = moving_averages_loop periods self_data self_data"

definition default_periods :: "int list" where
  "default_periods = [5, 10, 20, 50, 200]"

subsection \<open>\<open>calculate_rsi\<close>\<close>

text \<open>
  \<open>calculate_rsi\<close> returns \<open>ta.momentum.RSIIndicator(close, window=period).rsi()\<close>. The
  \<open>ta\<close> package is a dependency outside the repository; its indicator (with \<open>fillna=False\<close>)
  smooths the gains and the losses exponentially with \<open>alpha = 1 / window\<close>,
  \<open>min_periods = window\<close> and \<open>adjust=False\<close> (Wilder's smoothing), and is 100 where the
  smoothed loss is zero.
\<close>

definition ta_RSIIndicator_rsi :: "real list \<Rightarrow> nat \<Rightarrow> series" where
  "ta_RSIIndicator_rsi close w =
     (let d = diff close;
          up_direction = where_positive d;
          down_direction = map uminus (where_negative d);
          emaup = ewm_mean_recursive (1 / real w) w up_direction;
          emadn = ewm_mean_recursive (1 / real w) w down_direction
      in map2 (\<lambda>u d. case (u, d) of
                       (Some up, Some dn) \<Rightarrow>
                         if dn = 0 then Some 100 else Some (100 - 100 / (1 + up / dn))
                     | _ \<Rightarrow> None)
           emaup emadn)"

definition calculate_rsi :: "real list \<Rightarrow> int \<Rightarrow> py_exception + series" where
  \<comment> \<open>\<open>1 / window\<close> divides by zero for period 0; pandas rejects a negative \<open>alpha\<close>\<close>
  "calculate_rsi close period =
     (if period = 0 then Inl (Raised ''ZeroDivisionError'' ''division by zero'')
      else if period < 0 then Inl (Raised ''ValueError'' ''alpha must satisfy: 0 < alpha <= 1'')
      else Inr (ta_RSIIndicator_rsi close (nat period)))"

subsection \<open>\<open>calculate_trend_signals\<close>\<close>

text \<open>
  The MACD lines come from \<open>ta.trend.MACD\<close>, a dependency outside the repository, taken as
  the parameter \<open>ta_MACD\<close> (the close column and the three window lengths to the lines,
  or an exception).
\<close>

record macd_data =
  macd :: series
  macd_signal :: series
  macd_histogram :: series

definition gt :: "real option \<Rightarrow> real option \<Rightarrow> bool" where
  \<comment> \<open>\<open>a > b\<close> on floats: false when either side is NaN\<close>
  "gt a b = (case (a, b) of (Some x, Some y) \<Rightarrow> x > y | _ \<Rightarrow> False)"

definition le :: "real option \<Rightarrow> real option \<Rightarrow> bool" where
  "le a b = (case (a, b) of (Some x, Some y) \<Rightarrow> x \<le> y | _ \<Rightarrow> False)"

definition np_where :: "bool list \<Rightarrow> real \<Rightarrow> real \<Rightarrow> series" where
  \<comment> \<open>\<open>np.where(cond, a, b)\<close> with two constants\<close>
  "np_where cond a b = map (\<lambda>c. Some (if c then a else b)) cond"

datatype label = Position nat | Day pdate

definition reindex :: "label list \<Rightarrow> series \<Rightarrow> label list \<Rightarrow> series" where
  \<comment> \<open>\<open>pd.Series(s, index=new)\<close> for a Series \<open>s\<close>: the value that \<open>s\<close> has at each label
      of the new index, missing where \<open>s\<close> has no such label\<close>
  "reindex old vals new =
     map (\<lambda>l. case map_of (zip old vals) l of None \<Rightarrow> None | Some v \<Rightarrow> v) new"

definition row_means :: "series \<Rightarrow> series \<Rightarrow> series \<Rightarrow> series" where
  \<comment> \<open>\<open>DataFrame.mean(axis=1)\<close> of three columns without missing values\<close>
  "row_means a b c =
     map (\<lambda>(x, y, z). Some (mean (map the [x, y, z]))) (zip a (zip b c))"

definition calculate_trend_signals ::
  "(real list \<Rightarrow> int \<Rightarrow> int \<Rightarrow> int \<Rightarrow> py_exception + macd_data) \<Rightarrow> pricebar list
     \<Rightarrow> py_exception + (string \<times> series) list" where
  \<comment> \<open>the dict \<open>signals\<close> in insertion order. The row means are a Series on the default
      index \<open>0, 1, \<dots>\<close> of the intermediate frame, so the final
      \<open>pd.Series(value, index=self.data.index)\<close> re-indexes them on the dates; the other
      values are arrays and take the index as it is.\<close>
  "calculate_trend_signals ta_MACD self_data =
     (let close = map Close self_data;
          ma_20 = rolling_mean 20 close;
          ma_50 = rolling_mean 50 close;
          ma_200 = rolling_mean 200 close;
          ma_trend_short = np_where (map2 gt (map Some close) ma_20) 1 (- 1);
          ma_trend_medium = np_where (map2 gt ma_20 ma_50) 1 (- 1);
          ma_trend_long = np_where (map2 gt ma_50 ma_200) 1 (- 1);
          overall_trend = row_means ma_trend_short ma_trend_medium ma_trend_long
      in case calculate_rsi close 14 of
           Inl e \<Rightarrow> Inl e
         | Inr rsi \<Rightarrow>
             (case ta_MACD close 12 26 9 of
                Inl e \<Rightarrow> Inl e
              | Inr m \<Rightarrow>
                  Inr [(''ma_trend_short'', ma_trend_short),
                       (''ma_trend_medium'', ma_trend_medium),
                       (''ma_trend_long'', ma_trend_long),
                       (''overall_trend'',
                          reindex (map Position [0..<length overall_trend]) overall_trend
                            (map (\<lambda>r. Day (date r)) self_data)),
                       (''rsi_oversold'', np_where (map (\<lambda>v. gt (Some 30) v) rsi) 1 0),
                       (''rsi_overbought'', np_where (map (\<lambda>v. gt v (Some 70)) rsi) 1 0),
                       (''macd_bullish'',
                          np_where (map2 (\<and>) (map2 gt (macd m) (macd_signal m))
                                      (map2 le (shift1 (macd m)) (shift1 (macd_signal m)))) 1 0),
                       (''macd_bearish'',
                          np_where (map2 (\<and>) (map2 gt (macd_signal m) (macd m))
                                      (map2 le (shift1 (macd_signal m)) (shift1 (macd m)))) 1 0)]))"

section \<open>Seasonality analyzer: \<open>seasonality_analysis.py\<close>\<close>

subsection \<open>Column statistics that skip missing values\<close>

definition valid :: "series \<Rightarrow> real list" where
  \<comment> \<open>the values that are present, in order\<close>
  "valid s = concat (map (\<lambda>v. case v of None \<Rightarrow> [] | Some x \<Rightarrow> [x]) s)"

definition series_mean :: "series \<Rightarrow> real option" where
  \<comment> \<open>\<open>Series.mean()\<close>: NaN when no value is present\<close>
  "series_mean s = (if valid s = [] then None else Some (mean (valid s)))"

definition series_median :: "series \<Rightarrow> real option" where
  \<comment> \<open>\<open>Series.median()\<close>: the middle of the sorted present values\<close>
  "series_median s =
     (let v = sort (valid s); n = length v in
      if n = 0 then None
      else if odd n then Some (v ! (n div 2))
      else Some ((v ! (n div 2 - 1) + v ! (n div 2)) / 2))"

definition series_std :: "series \<Rightarrow> real option" where
  \<comment> \<open>\<open>Series.std()\<close>: the sample standard deviation (\<open>ddof=1\<close>) of the present values\<close>
  "series_std s =
     (let v = valid s; n = length v in
      if n < 2 then None
      else Some (sqrt (sum_list (map (\<lambda>x. (x - mean v)\<^sup>2) v) / real (n - 1))))"

definition positive_count :: "series \<Rightarrow> nat" where
  \<comment> \<open>\<open>(s > 0).sum()\<close>: a comparison with NaN is false\<close>
  "positive_count s = length (filter (\<lambda>v. case v of None \<Rightarrow> False | Some r \<Rightarrow> r > 0) s)"

definition positive_fraction :: "series \<Rightarrow> real option" where
  \<comment> \<open>\<open>(s > 0).mean()\<close>: the mean of a boolean column with one entry per row of \<open>s\<close>\<close>
  "positive_fraction s =
     (if s = [] then None else Some (real (positive_count s) / real (length s)))"

subsection \<open>\<open>prepare_data\<close> and the monthly buckets\<close>

record srow = pricebar +
  Daily_Return :: "real option"

definition prepare_data :: "pricebar list \<Rightarrow> srow list" where
  \<comment> \<open>adds \<open>Daily_Return = Close.pct_change()\<close>; the calendar columns are read off the date\<close>
  "prepare_data rows =
     map2 (\<lambda>b r. pricebar.extend b \<lparr>Daily_Return = r\<rparr>) rows (pct_change (map Close rows))"

definition month_names :: "string list" where
  \<comment> \<open>\<open>calendar.month_name\<close>\<close>
  "month_names = ['''', ''January'', ''February'', ''March'', ''April'', ''May'', ''June'',
     ''July'', ''August'', ''September'', ''October'', ''November'', ''December'']"

record month_stats =
  month_name :: string
  avg_return :: "real option"
  median_return :: "real option"
  std_return :: "real option"
  positive_days :: nat
  total_days :: nat
  win_rate :: "real option"
  avg_volume :: real
  avg_price_change :: "real option"

definition month_bucket :: "srow list \<Rightarrow> nat \<Rightarrow> month_stats" where
  \<comment> \<open>the dict stored for one month, from \<open>month_data = self.data[self.data['Month'] == month]\<close>\<close>
  "month_bucket month_data m =
     \<lparr>month_name = month_names ! m,
      avg_return = series_mean (map Daily_Return month_data),
      median_return = series_median (map Daily_Return month_data),
      std_return = series_std (map Daily_Return month_data),
      positive_days = positive_count (map Daily_Return month_data),
      total_days = length month_data,
      win_rate = positive_fraction (map Daily_Return month_data),
      avg_volume = mean (map (\<lambda>r. real (Volume r)) month_data),
      avg_price_change = series_mean (pct_change (map Close month_data))\<rparr>"

definition analyze_monthly_seasonality :: "srow list \<Rightarrow> (nat \<rightharpoonup> month_stats)" where
  \<comment> \<open>\<open>for month in range(1, 13)\<close>: a key for every month that has rows\<close>
  "analyze_monthly_seasonality self_data =
     map_of (concat (map (\<lambda>m.
        (let month_data = filter (\<lambda>r. month (date r) = m) self_data in
         if month_data \<noteq> [] then [(m, month_bucket month_data m)] else []))
        [1..<13]))"

subsection \<open>\<open>analyze_month_end_effect\<close>\<close>

definition is_leap :: "int \<Rightarrow> bool" where
  "is_leap y = (y mod 4 = 0 \<and> (y mod 100 \<noteq> 0 \<or> y mod 400 = 0))"

definition days_in_month :: "int \<Rightarrow> nat \<Rightarrow> int" where
  \<comment> \<open>\<open>calendar.monthrange(year, month)[1]\<close>\<close>
  "days_in_month y m =
     (if m = 2 then (if is_leap y then 29 else 28)
      else if m \<in> {4, 6, 9, 11} then 30 else 31)"

record effect_stats =
  avg_return :: "real option"
  median_return :: "real option"
  std_return :: "real option"
  positive_days :: nat
  total_days :: nat
  win_rate :: "real option"

definition effect_bucket :: "series \<Rightarrow> effect_stats" where
  \<comment> \<open>the statistics of \<open>pd.Series(days).dropna()\<close>\<close>
  "effect_bucket days =
     (let returns = map Some (valid days) in
      \<lparr>avg_return = series_mean returns,
       median_return = series_median returns,
       std_return = series_std returns,
       positive_days = positive_count returns,
       total_days = length returns,
       win_rate = positive_fraction returns\<rparr>)"

definition analyze_month_end_effect :: "srow list \<Rightarrow> (effect_stats \<times> effect_stats) option" where
  \<comment> \<open>the pair is \<open>('month_end', 'other_days')\<close>; \<open>None\<close> is the empty dict of an empty frame\<close>
  "analyze_month_end_effect self_data =
     (if self_data = [] then None
      else
        (let is_month_end =
               (\<lambda>r. int (day (date r)) \<ge> days_in_month (year (date r)) (month (date r)) - 2);
             month_end_days = map Daily_Return (filter is_month_end self_data);
             other_days = map Daily_Return (filter (\<lambda>r. \<not> is_month_end r) self_data)
         in Some (effect_bucket month_end_days, effect_bucket other_days)))"

section \<open>Predictive model: \<open>predictive_model.py\<close>\<close>

subsection \<open>The predictor object\<close>

text \<open>
  \<open>self.data\<close> after \<open>prepare_features\<close>: one row per trading day with the PriceBar, the
  label column \<open>Next_Day_Direction\<close> and the values of the feature columns in the order of
  \<open>get_feature_columns\<close>. The fitted scikit-learn estimators are outside the repository:
  a trained model is the pair of its \<open>predict_proba(X)[0, 1]\<close> and \<open>predict(X)[0]\<close>
  functions on one feature row, either of which may raise. The attributes \<open>best_model\<close>
  and \<open>best_model_name\<close> exist only after a successful training: \<open>None\<close> is the
  missing attribute.
\<close>

record frow = pricebar +
  Next_Day_Direction :: int
  features :: "real option list"

record model =
  predict_proba :: "real list \<Rightarrow> py_exception + real"
  predict :: "real list \<Rightarrow> py_exception + int"

record predictor =
  data :: "frow list"
  best_model :: "model option"
  best_model_name :: "string option"
  scaler_transform :: "real list \<Rightarrow> py_exception + real list"
  feature_importance :: "(string \<times> (string \<times> real) list) list"

definition lagged_cols :: "string list" where
  "lagged_cols = [''Return_Lag_1'', ''Volume_Lag_1'', ''Return_Lag_2'', ''Volume_Lag_2'',
                  ''Return_Lag_3'', ''Volume_Lag_3'', ''Return_Lag_5'', ''Volume_Lag_5'']"

definition get_feature_columns :: "string list" where
  "get_feature_columns =
     [''Price_vs_MA5'', ''Price_vs_MA20'', ''Price_vs_MA50'',
      ''Volatility_Ratio'', ''Volume_Ratio'', ''High_Low_Range'',
      ''Close_Open_Range'', ''Momentum_5d'', ''Momentum_10d'',
      ''RSI'', ''MACD'', ''MACD_Signal'', ''MACD_Histogram'',
      ''BB_Position'', ''Month'', ''Quarter'', ''DayOfWeek''] @ lagged_cols"

definition model_input :: "predictor \<Rightarrow> real list \<Rightarrow> py_exception + real list" where
  \<comment> \<open>the branch on \<open>best_model_name\<close> that precedes every call of the selected model\<close>
  "model_input p X =
     (if best_model_name p = Some ''logistic_regression'' then scaler_transform p X else Inr X)"

subsection \<open>The RSI feature of \<open>prepare_features\<close>\<close>

definition float_rsi :: "real \<Rightarrow> real \<Rightarrow> real option" where
  \<comment> \<open>\<open>100 - (100 / (1 + gains / losses))\<close> in floating point: a non-zero value over zero is
      an infinity, which gives 100; zero over zero is NaN\<close>
  "float_rsi gains losses =
     (if losses = 0 then (if gains = 0 then None else Some 100)
      else Some (100 - 100 / (1 + gains / losses)))"

definition rsi_feature :: "real list \<Rightarrow> series" where
  \<comment> \<open>the column \<open>self.data['RSI']\<close>, from the column \<open>Close\<close>\<close>
  "rsi_feature close =
     (let price_changes = diff close;
          gains = rolling_mean 14 (where_positive price_changes);
          losses = rolling_mean 14 (map uminus (where_negative price_changes))
      in map2 (\<lambda>g l. case (g, l) of (Some gv, Some lv) \<Rightarrow> float_rsi gv lv | _ \<Rightarrow> None)
           gains losses)"

text \<open>
  The RSI of the specification, section 4.1, in its own words: average gain over average
  loss in a 14-day rolling window of price deltas, 100 when the losses are zero, missing
  when fewer than 14 prior deltas exist. Row \<open>i\<close> has \<open>i\<close> deltas before and including it.
\<close>

definition spec_rsi :: "real list \<Rightarrow> nat \<Rightarrow> real option" where
  "spec_rsi close i =
     (if i < 14 \<or> length close \<le> i then None
      else
        (let deltas = map (\<lambda>j. close ! j - close ! (j - 1)) [i - 13..<Suc i];
             average_gain = mean (map (\<lambda>d. if d > 0 then d else 0) deltas);
             average_loss = mean (map (\<lambda>d. if d < 0 then - d else 0) deltas)
         in if average_loss = 0 then Some 100
            else Some (100 - 100 / (1 + average_gain / average_loss))))"

subsection \<open>\<open>predict_next_day\<close>\<close>

datatype direction = bullish | bearish | neutral

datatype confidence_level = low | medium | high

record next_day_prediction =
  prediction :: direction
  probability :: real
  confidence :: confidence_level
  model_used :: "string option"
  features_analyzed :: "nat option"

definition safe_default :: next_day_prediction where
  \<comment> \<open>\<open>{'prediction': 'neutral', 'probability': 0.5, 'confidence': 'low'}\<close>\<close>
  "safe_default = \<lparr>prediction = neutral, probability = 0.5, confidence = low,
                    model_used = None, features_analyzed = None\<rparr>"

definition iloc_last :: "'a list \<Rightarrow> 'a list" where
  \<comment> \<open>\<open>df.iloc[-1:]\<close>: the last row, or no row of an empty frame\<close>
  "iloc_last xs = (if xs = [] then [] else [last xs])"

definition predict_next_day :: "predictor \<Rightarrow> next_day_prediction" where
  \<comment> \<open>\<open>X_latest\<close> has the one row \<open>iloc[-1:]\<close> selects; on an empty frame it has no row,
      \<open>predict_proba\<close> rejects it and the handler returns the default\<close>
  "predict_next_day p =
     (case best_model p of
        None \<Rightarrow> safe_default
      | Some m \<Rightarrow>
          (let X_latest = map features (iloc_last (data p)) in
           if list_ex isnan_any X_latest then safe_default
           else
             (case X_latest of
                [x] \<Rightarrow>
                  (case model_input p (map the x) of
                     Inl e \<Rightarrow> safe_default
                   | Inr X \<Rightarrow>
                       (case predict_proba m X of
                          Inl e \<Rightarrow> safe_default
                        | Inr prob \<Rightarrow>
                            \<lparr>prediction =
                               (if prob > 0.6 then bullish
                                else if prob < 0.4 then bearish else neutral),
                             probability = prob,
                             confidence =
                               (if prob > 0.6 then (if prob > 0.75 then high else medium)
                                else if prob < 0.4 then (if prob < 0.25 then high else medium)
                                else (if \<bar>prob - 0.5\<bar> > 0.05 then medium else low)),
                             model_used = best_model_name p,
                             features_analyzed = Some (length get_feature_columns)\<rparr>))
              | _ \<Rightarrow> safe_default)))"

subsection \<open>\<open>backtest_model\<close>\<close>

record backtest_result =
  accuracy :: real
  total_return :: real
  win_rate :: real
  total_trades :: nat
  avg_probability :: real
  strategy_returns :: "real list"

type_synonym backtest_lists = "int list \<times> int list \<times> real list"

definition backtest_step ::
  "predictor \<Rightarrow> model \<Rightarrow> frow list \<Rightarrow> backtest_lists \<Rightarrow> nat \<Rightarrow> backtest_lists" where
  \<comment> \<open>the body of \<open>for i in range(1, len(backtest_data))\<close>; the row read is \<open>i - 1\<close> with
      \<open>1 \<le> i < len\<close>, so both reads are in range; every exception of the body is caught
      and the iteration skipped\<close>
  "backtest_step p m backtest_data acc i =
     (case acc of (predictions, actuals, probabilities) \<Rightarrow>
        (let X = features (backtest_data ! (i - 1)) in
         if isnan_any X then acc
         else
           (case model_input p (map the X) of
              Inl e \<Rightarrow> acc
            | Inr Xm \<Rightarrow>
                (case predict_proba m Xm of
                   Inl e \<Rightarrow> acc
                 | Inr prob \<Rightarrow>
                     (case predict m Xm of
                        Inl e \<Rightarrow> acc
                      | Inr pred \<Rightarrow>
                          (let actual = Next_Day_Direction (backtest_data ! i) in
                           (predictions @ [pred], actuals @ [actual],
                            probabilities @ [prob])))))))"

definition backtest_collect :: "predictor \<Rightarrow> model \<Rightarrow> frow list \<Rightarrow> backtest_lists" where
  "backtest_collect p m backtest_data =
     foldl (backtest_step p m backtest_data) ([], [], []) [1..<length backtest_data]"

definition accuracy_score :: "int list \<Rightarrow> int list \<Rightarrow> real" where
  \<comment> \<open>the fraction of positions where the two lists agree (lists of equal, positive length)\<close>
  "accuracy_score y_true y_pred =
     real (length (filter (\<lambda>(a, b). a = b) (zip y_true y_pred))) / real (length y_true)"

definition position_return :: "int \<Rightarrow> real \<Rightarrow> real \<Rightarrow> real" where
  \<comment> \<open>long, short or no position\<close>
  "position_return pred prob actual_return =
     (if pred = 1 \<and> prob > 0.6 then actual_return
      else if pred = 0 \<and> prob < 0.4 then - actual_return
      else 0)"

fun strategy_loop ::
  "frow list \<Rightarrow> nat \<Rightarrow> (nat \<times> int \<times> real) list \<Rightarrow> real list \<Rightarrow> py_exception + real list" where
  \<comment> \<open>\<open>for i, (pred, prob) in enumerate(zip(predictions, probabilities))\<close>;
      \<open>backtest_data.iloc[i+1]\<close> raises IndexError out of range, and nothing catches it.
      The closes of a PriceBar are positive, so the division is defined.\<close>
  "strategy_loop backtest_data n_actuals [] returns_so_far = Inr returns_so_far"
| "strategy_loop backtest_data n_actuals ((i, pred, prob) # rest) returns_so_far =
     (if i < n_actuals then
        (if i + 1 < length backtest_data then
           (let actual_return =
                  Close (backtest_data ! (i + 1)) / Close (backtest_data ! i) - 1
            in strategy_loop backtest_data n_actuals rest
                 (returns_so_far @ [position_return pred prob actual_return]))
         else Inl (Raised ''IndexError'' ''single positional indexer is out-of-bounds''))
      else strategy_loop backtest_data n_actuals rest returns_so_far)"

definition backtest_model :: "predictor \<Rightarrow> int \<Rightarrow> py_exception + backtest_result option" where
  \<comment> \<open>\<open>None\<close> is the empty dict \<open>{}\<close>\<close>
  "backtest_model p days_back =
     (case best_model p of
        None \<Rightarrow> Inr None
      | Some m \<Rightarrow>
          (let backtest_data = tail_rows days_back (data p) in
           case backtest_collect p m backtest_data of
             (predictions, actuals, probabilities) \<Rightarrow>
               if predictions = [] then Inr None
               else
                 (case strategy_loop backtest_data (length actuals)
                         (zip [0..<length predictions] (zip predictions probabilities)) [] of
                    Inl e \<Rightarrow> Inl e
                  | Inr rets \<Rightarrow>
                      Inr (Some
                        \<lparr>accuracy = accuracy_score actuals predictions,
                         total_return = sum_list rets,
                         win_rate =
                           (if rets \<noteq> []
                            then real (length (filter (\<lambda>r. r > 0) rets))
                                 / real (length rets)
                            else 0),
                         total_trades = length predictions,
                         avg_probability = sum_list probabilities / real (length probabilities),
                         strategy_returns = rets\<rparr>))))"

subsection \<open>\<open>get_feature_importance\<close>\<close>


section \<open>Orchestrator: \<open>analysis_orchestrator.py\<close>\<close>

text \<open>
  A section of a result is either the keyed error object \<open>{'error': message}\<close> or the dict
  that the analyzer returns.
\<close>

datatype 'a keyed = Error_dict string | Result_dict 'a

subsection \<open>The collaborators\<close>

text \<open>
  What the orchestrator calls and this development does not unfold: the store adapter,
  the indicator frame and summary (built on the \<open>ta\<close> package), the seasonality report,
  the construction and training of a predictor (scikit-learn), the rule-based summary
  (a function that catches its own exceptions) and the clock. Each call that can raise
  returns a sum.
\<close>

record ('ts, 'sr) collaborators =
  get_stock_data :: "string \<Rightarrow> pdate option \<Rightarrow> pdate option \<Rightarrow> py_exception + pricebar list"
  calculate_all_indicators :: "pricebar list \<Rightarrow> py_exception + tframe"
  get_technical_summary :: "tframe \<Rightarrow> py_exception + 'ts"
  ta_MACD :: "real list \<Rightarrow> int \<Rightarrow> int \<Rightarrow> int \<Rightarrow> py_exception + macd_data"
  get_comprehensive_seasonality_report :: "pricebar list \<Rightarrow> py_exception + 'sr"
  create_predictive_model :: "pricebar list \<Rightarrow> py_exception + predictor"
  now_isoformat :: string

subsection \<open>\<open>_perform_technical_analysis\<close>\<close>

text \<open>
  Each \<open>_perform_\<dots>\<close> method is a \<open>try\<close> block with the handler
  \<open>except Exception as e: return {'error': str(e)}\<close>. The block is a function that
  returns a sum, and \<open>catch\<close> is the handler.
\<close>

definition catch :: "py_exception + 'a \<Rightarrow> 'a keyed" where
  "catch body = (case body of Inl e \<Rightarrow> Error_dict (exc_str e) | Inr r \<Rightarrow> Result_dict r)"

record 'ts technical_result =
  current_indicators :: 'ts
  trend_signals :: "(string \<times> real option) list"
  data_with_indicators :: tframe

definition frame_tail :: "int \<Rightarrow> tframe \<Rightarrow> tframe" where
  \<comment> \<open>\<open>df.tail(n)\<close> on the bars and on every derived column\<close>
  "frame_tail n f =
     \<lparr>bars = tail_rows n (bars f), derived = (\<lambda>c. map_option (tail_rows n) (derived f c))\<rparr>"

definition latest_trend_of :: "(string \<times> series) list \<Rightarrow> py_exception + (string \<times> real option) list" where
  \<comment> \<open>\<open>latest_trend = {}\<close>, then \<open>if not trend_signals: latest_trend = trend_signals.iloc[-1].to_dict()\<close>:
      \<open>trend_signals\<close> is a dict, which is false exactly when it is empty and has no
      attribute \<open>iloc\<close> (the message is written without its quotation marks)\<close>
  "latest_trend_of trend_signals_dict =
     (if trend_signals_dict = []
      then Inl (Raised ''AttributeError'' ''dict object has no attribute iloc'')
      else Inr [])"

definition technical_body ::
  "('ts, 'sr) collaborators \<Rightarrow> pricebar list \<Rightarrow> py_exception + 'ts technical_result" where
  "technical_body c stock_data =
     (case calculate_all_indicators c stock_data of
        Inl e \<Rightarrow> Inl e
      | Inr with_indicators \<Rightarrow>
          (case get_technical_summary c with_indicators of
             Inl e \<Rightarrow> Inl e
           | Inr technical_summary \<Rightarrow>
               (case calculate_trend_signals (ta_MACD c) (bars with_indicators) of
                  Inl e \<Rightarrow> Inl e
                | Inr signals \<Rightarrow>
                    (case latest_trend_of signals of
                       Inl e \<Rightarrow> Inl e
                     | Inr latest_trend \<Rightarrow>
                         Inr \<lparr>current_indicators = technical_summary,
                              trend_signals = latest_trend,
                              data_with_indicators = frame_tail 50 with_indicators\<rparr>))))"

definition perform_technical_analysis ::
  "('ts, 'sr) collaborators \<Rightarrow> pricebar list \<Rightarrow> 'ts technical_result keyed" where
  "perform_technical_analysis c stock_data = catch (technical_body c stock_data)"

subsection \<open>\<open>_perform_seasonality_analysis\<close>\<close>


subsection \<open>\<open>_perform_predictive_analysis\<close> and \<open>get_prediction\<close>\<close>

text \<open>
  Both return, next to their dict, the number of calls of \<open>create_predictive_model\<close> they
  made: training is the effect that the 100-row gate guards.
\<close>

record predictive_result =
  next_day_prediction :: next_day_prediction
  feature_importance :: "(string \<times> real) list"
  backtest_results :: "backtest_result option"
  model_performance :: "string \<times> nat"

definition insufficient_data :: string where
  "insufficient_data = ''Insufficient data for prediction (need at least 100 days)''"



definition get_prediction ::
  "('ts, 'sr) collaborators \<Rightarrow> string \<Rightarrow> nat \<times> next_day_prediction keyed" where
  "get_prediction c tick =
     (case get_stock_data c tick None None of
        Inl e \<Rightarrow> (0, Error_dict (exc_str e))
      | Inr stock_data \<Rightarrow>
          if stock_data = [] then (0, Error_dict (''No data found for '' @ tick))
          else if length stock_data < 100 then (0, Error_dict insufficient_data)
          else
            (1, catch (case create_predictive_model c stock_data of
                         Inl e \<Rightarrow> Inl e
                       | Inr p \<Rightarrow> Inr (predict_next_day p))))"

subsection \<open>\<open>get_comprehensive_analysis\<close>\<close>







section \<open>Example inputs\<close>

text \<open>
  Concrete inputs on which the theorems below are instantiated: a model that answers every
  row with one probability and one class, a predictor whose selected model is a tree
  ensemble, and a frame of 100 rows of rising closes whose first 49 rows lack the 50-day
  average (the feature \<open>Price_vs_MA50\<close>, third in the feature order), as in every frame
  that \<open>prepare_features\<close> builds.
\<close>

definition example_model :: "real \<Rightarrow> int \<Rightarrow> model" where
  "example_model prob cls = \<lparr>predict_proba = (\<lambda>X. Inr prob), predict = (\<lambda>X. Inr cls)\<rparr>"

definition example_predictor :: "frow list \<Rightarrow> model \<Rightarrow> predictor" where
  "example_predictor rows m =
     \<lparr>data = rows, best_model = Some m, best_model_name = Some ''random_forest'',
      scaler_transform = Inr, feature_importance = []\<rparr>"

definition example_row :: "nat \<Rightarrow> real \<Rightarrow> int \<Rightarrow> real option list \<Rightarrow> frow" where
  \<comment> \<open>row number \<open>i\<close> of a frame with ascending dates\<close>
  "example_row i c direction fs =
     \<lparr>date = \<lparr>year = 2024, month = 1 + i div 28, day = 1 + i mod 28\<rparr>,
      Open = c, High = c, Low = c, Close = c,
      Volume = 1000, Next_Day_Direction = direction, features = fs\<rparr>"

definition warmup_features :: "real option list" where
  "warmup_features = (replicate 25 (Some 0))[2 := None]"

definition hundred_rows :: "frow list" where
  "hundred_rows =
     map (\<lambda>i. example_row i (100 + real i) (if i < 99 then 1 else 0)
                (if i < 49 then warmup_features else replicate 25 (Some 0))) [0..<100]"

definition first_attributed_return :: "predictor \<Rightarrow> int \<Rightarrow> real option" where
  "first_attributed_return p days_back =
     (case backtest_model p days_back of
        Inr (Some r) \<Rightarrow> (case strategy_returns r of [] \<Rightarrow> None | x # _ \<Rightarrow> Some x)
      | _ \<Rightarrow> None)"

definition three_rows :: "frow list" where
  "three_rows =
     [example_row 0 100 1 (replicate 25 (Some 0)),
      example_row 1 110 0 (replicate 25 (Some 0)),
      example_row 2 99 0 (replicate 25 (Some 0))]"

definition three_rows_result :: backtest_result where
  "three_rows_result =
     \<lparr>accuracy = 0, total_return = 0, win_rate = 1 / 2, total_trades = 2,
      avg_probability = 7 / 10, strategy_returns = [1 / 10, - (1 / 10)]\<rparr>"

definition spike_closes :: "real list" where
  \<comment> \<open>15 closes: one rise, one fall, then flat\<close>
  "spike_closes = [1, 2, 1, 1, 1, 1, 1, 1, 1, 1, 1, 1, 1, 1, 1]"

definition short_frame :: tframe where
  \<comment> \<open>three bars and no derived column\<close>
  "short_frame =
     \<lparr>bars = [\<lparr>date = \<lparr>year = 2024, month = 1, day = 2\<rparr>, Open = 1, High = 1, Low = 1, Close = 1, Volume = 1000\<rparr>,
              \<lparr>date = \<lparr>year = 2024, month = 1, day = 3\<rparr>, Open = 2, High = 2, Low = 2, Close = 2, Volume = 1000\<rparr>,
              \<lparr>date = \<lparr>year = 2024, month = 1, day = 4\<rparr>, Open = 3, High = 3, Low = 3, Close = 3, Volume = 1000\<rparr>],
      derived = Map.empty\<rparr>"

definition two_bars :: "pricebar list" where
  \<comment> \<open>two trading days of one January, and what the analyzers compute from them\<close>
  "two_bars =
     [\<lparr>date = \<lparr>year = 2024, month = 1, day = 2\<rparr>, Open = 100, High = 100, Low = 100, Close = 100, Volume = 1000\<rparr>,
      \<lparr>date = \<lparr>year = 2024, month = 1, day = 3\<rparr>, Open = 110, High = 110, Low = 110, Close = 110, Volume = 3000\<rparr>]"

definition january_of_two_bars :: month_stats where
  "january_of_two_bars =
     \<lparr>month_stats.month_name = ''January'', month_stats.avg_return = Some (1 / 10),
      month_stats.median_return = Some (1 / 10), month_stats.std_return = None,
      month_stats.positive_days = 1, month_stats.total_days = 2,
      month_stats.win_rate = Some (1 / 2), month_stats.avg_volume = 2000,
      month_stats.avg_price_change = Some (1 / 10)\<rparr>"

definition other_days_of_two_bars :: effect_stats where
  "other_days_of_two_bars =
     \<lparr>effect_stats.avg_return = Some (1 / 10), effect_stats.median_return = Some (1 / 10),
      effect_stats.std_return = None, effect_stats.positive_days = 1,
      effect_stats.total_days = 1, effect_stats.win_rate = Some 1\<rparr>"

definition two_rows :: "srow list" where
  "two_rows =
     [\<lparr>date = \<lparr>year = 2024, month = 1, day = 2\<rparr>, Open = 100, High = 100, Low = 100,
       Close = 100, Volume = 1000, Daily_Return = None\<rparr>,
      \<lparr>date = \<lparr>year = 2024, month = 1, day = 3\<rparr>, Open = 110, High = 110, Low = 110,
       Close = 110, Volume = 3000, Daily_Return = Some (1 / 10)\<rparr>]"


definition example_macd :: "real list \<Rightarrow> int \<Rightarrow> int \<Rightarrow> int \<Rightarrow> py_exception + macd_data" where
  "example_macd close fast slow sign =
     Inr \<lparr>macd = map (\<lambda>x. None) close, macd_signal = map (\<lambda>x. None) close,
          macd_histogram = map (\<lambda>x. None) close\<rparr>"

definition example_collaborators :: "(unit, unit) collaborators" where
  \<comment> \<open>a store with two bars, a seasonality report that raises, a training that succeeds\<close>
  "example_collaborators =
     \<lparr>get_stock_data = (\<lambda>tick start_date end_date. Inr two_bars),
      calculate_all_indicators = (\<lambda>rows. Inr \<lparr>bars = rows, derived = Map.empty\<rparr>),
      get_technical_summary = (\<lambda>f. Inr ()),
      ta_MACD = example_macd,
      get_comprehensive_seasonality_report = (\<lambda>rows. Inl (Raised ''KeyError'' ''Close'')),
      create_predictive_model = (\<lambda>rows. Inr (example_predictor hundred_rows (example_model 0.8 1))),
      now_isoformat = ''2026-01-05T09:30:00''\<rparr>"

definition example_technical_result :: "unit technical_result" where
  "example_technical_result =
     \<lparr>current_indicators = (), trend_signals = [],
      data_with_indicators = frame_tail 50 \<lparr>bars = two_bars, derived = Map.empty\<rparr>\<rparr>"

section \<open>Properties of the backtest\<close>

lemma backtest_step_skip:
  "isnan_any (features (bd ! (i - 1))) \<Longrightarrow> backtest_step p m bd acc i = acc"
  by (simp add: backtest_step_def split: prod.splits)

lemma backtest_fold_skip:
  "(\<And>i. i \<in> set idx \<Longrightarrow> isnan_any (features (bd ! (i - 1))))
     \<Longrightarrow> foldl (backtest_step p m bd) acc idx = acc"
  by (induction idx) (simp_all add: backtest_step_skip)

lemma backtest_step_lengths:
  assumes "backtest_step p m bd (ps, as, qs) i = (ps', as', qs')"
    and "length as = length ps" and "length qs = length ps"
  shows "length as' = length ps' \<and> length qs' = length ps' \<and> length ps' \<le> Suc (length ps)
         \<and> (\<exists>ps2 qs2. ps' = ps @ ps2 \<and> qs' = qs @ qs2)"
  using assms
  by (auto simp: backtest_step_def Let_def split: if_splits sum.splits)

lemma backtest_fold_lengths:
  assumes "foldl (backtest_step p m bd) (ps, as, qs) idx = (ps', as', qs')"
    and "length as = length ps" and "length qs = length ps"
  shows "length as' = length ps' \<and> length qs' = length ps'
         \<and> length ps' \<le> length ps + length idx
         \<and> (\<exists>ps2 qs2. ps' = ps @ ps2 \<and> qs' = qs @ qs2)"
  using assms
proof (induction idx arbitrary: ps as qs)
  case Nil
  then show ?case by simp
next
  case (Cons i idx)
  obtain ps1 as1 qs1 where s: "backtest_step p m bd (ps, as, qs) i = (ps1, as1, qs1)"
    by (cases "backtest_step p m bd (ps, as, qs) i") auto
  from backtest_step_lengths [OF s Cons.prems(2,3)]
  have l1: "length as1 = length ps1" "length qs1 = length ps1" "length ps1 \<le> Suc (length ps)"
    and pre: "\<exists>ps2 qs2. ps1 = ps @ ps2 \<and> qs1 = qs @ qs2" by auto
  from Cons.prems(1) s have "foldl (backtest_step p m bd) (ps1, as1, qs1) idx = (ps', as', qs')"
    by simp
  from Cons.IH [OF this l1(1,2)] l1(3) pre show ?case by auto
qed

lemma backtest_collect_lengths:
  assumes "backtest_collect p m bd = (ps, as, qs)"
  shows "length as = length ps" and "length qs = length ps" and "length ps \<le> length bd - 1"
  using backtest_fold_lengths [of p m bd "[]" "[]" "[]" "[1..<length bd]" ps as qs] assms
  by (auto simp: backtest_collect_def)

lemma strategy_loop_in_range:
  assumes "\<And>i pred prob. (i, pred, prob) \<in> set zs \<Longrightarrow> i < n \<and> i + 1 < length bd"
  shows "strategy_loop bd n zs acc =
           Inr (acc @ map (\<lambda>(i, pred, prob).
                  position_return pred prob (Close (bd ! (i + 1)) / Close (bd ! i) - 1)) zs)"
  using assms
proof (induction zs arbitrary: acc)
  case Nil
  then show ?case by simp
next
  case (Cons z zs)
  obtain i pred prob where z: "z = (i, pred, prob)" by (cases z) auto
  from Cons.prems [of i pred prob] z have r: "i < n" "i + 1 < length bd" by auto
  have "strategy_loop bd n (z # zs) acc =
          strategy_loop bd n zs
            (acc @ [position_return pred prob (Close (bd ! (i + 1)) / Close (bd ! i) - 1)])"
    using r z by (simp add: Let_def)
  also have "\<dots> = Inr ((acc @ [position_return pred prob (Close (bd ! (i + 1)) / Close (bd ! i) - 1)])
       @ map (\<lambda>(i, pred, prob).
                  position_return pred prob (Close (bd ! (i + 1)) / Close (bd ! i) - 1)) zs)"
    by (rule Cons.IH) (use Cons.prems in auto)
  finally show ?case using z by simp
qed

lemma backtest_model_returns:
  assumes "best_model p = Some m"
    and "backtest_collect p m (tail_rows days_back (data p)) = (ps, as, qs)"
    and "ps \<noteq> []"
  shows "\<exists>r. backtest_model p days_back = Inr (Some r) \<and>
           total_trades r = length ps \<and>
           strategy_returns r =
             map (\<lambda>k. position_return (ps ! k) (qs ! k)
                        (Close (tail_rows days_back (data p) ! (k + 1))
                           / Close (tail_rows days_back (data p) ! k) - 1))
               [0..<length ps]"
proof -
  let ?bd = "tail_rows days_back (data p)"
  let ?zs = "zip [0..<length ps] (zip ps qs)"
  note len = backtest_collect_lengths [OF assms(2)]
  have rng: "\<And>i pred prob. (i, pred, prob) \<in> set ?zs \<Longrightarrow> i < length as \<and> i + 1 < length ?bd"
  proof -
    fix i pred prob assume "(i, pred, prob) \<in> set ?zs"
    then have "i \<in> set [0..<length ps]" by (meson set_zip_leftD)
    then have "i < length ps" by simp
    with len show "i < length as \<and> i + 1 < length ?bd" by auto
  qed
  have loop: "strategy_loop ?bd (length as) ?zs [] =
      Inr (map (\<lambda>(i, pred, prob).
                  position_return pred prob (Close (?bd ! (i + 1)) / Close (?bd ! i) - 1)) ?zs)"
    using strategy_loop_in_range [of ?zs "length as" ?bd "[]"] rng by simp
  have m: "map (\<lambda>(i, pred, prob).
                  position_return pred prob (Close (?bd ! (i + 1)) / Close (?bd ! i) - 1)) ?zs
         = map (\<lambda>k. position_return (ps ! k) (qs ! k) (Close (?bd ! (k + 1)) / Close (?bd ! k) - 1))
               [0..<length ps]"
    using len by (intro nth_equalityI) auto
  show ?thesis
    using assms loop m by (simp add: backtest_model_def Let_def)
qed


text \<open>
  When no row of the window is skipped, the prediction made from the features of row \<open>k\<close>
  is paid the close-to-close return of row \<open>k + 1\<close>.
\<close>

lemma backtest_fold_without_skips:
  assumes ok: "\<And>j. j + 1 < length bd \<Longrightarrow>
           \<not> isnan_any (features (bd ! j)) \<and>
           model_input p (map the (features (bd ! j))) = Inr (X j) \<and>
           predict_proba m (X j) = Inr (prob j) \<and> predict m (X j) = Inr (pred j)"
    and n: "n < length bd"
  shows "foldl (backtest_step p m bd) ([], [], []) [1..<Suc n] =
           (map pred [0..<n], map (\<lambda>j. Next_Day_Direction (bd ! (j + 1))) [0..<n],
            map prob [0..<n])"
  using n
proof (induction n)
  case 0
  then show ?case by simp
next
  case (Suc n)
  then have IH: "foldl (backtest_step p m bd) ([], [], []) [1..<Suc n] =
           (map pred [0..<n], map (\<lambda>j. Next_Day_Direction (bd ! (j + 1))) [0..<n],
            map prob [0..<n])"
    by simp
  from Suc.prems have "n + 1 < length bd" by simp
  from ok [OF this] have step: "backtest_step p m bd
       (map pred [0..<n], map (\<lambda>j. Next_Day_Direction (bd ! (j + 1))) [0..<n], map prob [0..<n])
       (Suc n) =
       (map pred [0..<n] @ [pred n],
        map (\<lambda>j. Next_Day_Direction (bd ! (j + 1))) [0..<n] @ [Next_Day_Direction (bd ! Suc n)],
        map prob [0..<n] @ [prob n])"
    by (simp add: backtest_step_def)
  have "[1..<Suc (Suc n)] = [1..<Suc n] @ [Suc n]" by simp
  then show ?case by (simp only: foldl_append foldl_Cons foldl_Nil IH step) simp
qed

lemma backtest_aligned_without_skips:
  assumes bm: "best_model p = Some m"
    and bd: "bd = tail_rows days_back (data p)"
    and len: "2 \<le> length bd"
    and ok: "\<And>j. j + 1 < length bd \<Longrightarrow>
           \<not> isnan_any (features (bd ! j)) \<and>
           model_input p (map the (features (bd ! j))) = Inr (X j) \<and>
           predict_proba m (X j) = Inr (prob j) \<and> predict m (X j) = Inr (pred j)"
  shows "\<exists>r. backtest_model p days_back = Inr (Some r) \<and>
           strategy_returns r =
             map (\<lambda>k. position_return (pred k) (prob k)
                        (Close (bd ! (k + 1)) / Close (bd ! k) - 1)) [0..<length bd - 1]"
proof -
  obtain n where n: "length bd = Suc n" "0 < n" using len by (cases "length bd") auto
  have "backtest_collect p m bd =
          (map pred [0..<n], map (\<lambda>j. Next_Day_Direction (bd ! (j + 1))) [0..<n], map prob [0..<n])"
    unfolding backtest_collect_def n(1)
    by (rule backtest_fold_without_skips [OF ok]) (simp_all add: n)
  moreover have "map pred [0..<n] \<noteq> []" using n by simp
  ultimately obtain r where r: "backtest_model p days_back = Inr (Some r)"
    and sr: "strategy_returns r =
             map (\<lambda>k. position_return (map pred [0..<n] ! k) (map prob [0..<n] ! k)
                        (Close (bd ! (k + 1)) / Close (bd ! k) - 1))
               [0..<length (map pred [0..<n])]"
    using backtest_model_returns [OF bm, of days_back "map pred [0..<n]" _ "map prob [0..<n]"] bd
    by auto
  have "strategy_returns r =
          map (\<lambda>k. position_return (pred k) (prob k)
                        (Close (bd ! (k + 1)) / Close (bd ! k) - 1)) [0..<n]"
    unfolding sr by (rule nth_equalityI) simp_all
  with r n show ?thesis by simp
qed

lemma length_hundred_rows: "length hundred_rows = 100"
  by (simp add: hundred_rows_def)

lemma nth_hundred_rows:
  "i < 100 \<Longrightarrow> hundred_rows ! i =
     example_row i (100 + real i) (if i < 99 then 1 else 0)
       (if i < 49 then warmup_features else replicate 25 (Some 0))"
  by (simp add: hundred_rows_def)

lemma isnan_warmup: "isnan_any warmup_features"
  by (simp add: isnan_any_def warmup_features_def list_ex_iff set_update_memI)

lemma not_isnan_complete: "\<not> isnan_any (replicate 25 (Some 0))"
  by (simp add: isnan_any_def list_ex_iff)

lemma hundred_rows_warmup: "i < 49 \<Longrightarrow> isnan_any (features (hundred_rows ! i))"
  by (simp add: nth_hundred_rows example_row_def isnan_warmup)

lemma three_rows_backtest:
  "backtest_model (example_predictor three_rows (example_model 0.7 1)) 252 = Inr (Some three_rows_result)"
  by (simp add: backtest_model_def example_predictor_def tail_rows_def three_rows_def
      backtest_collect_def backtest_step_def not_isnan_complete example_row_def model_input_def
      example_model_def upt_rec accuracy_score_def position_return_def three_rows_result_def)

text \<open>
  Claim C1 (the part the code breaks). The claim attributes to every recorded backtest step
  the close-to-close return of the row that follows the row whose features produced the
  prediction. On the 100-row frame the first 49 rows are skipped, so the first recorded
  prediction comes from row 49 and the claim asks for \<open>Close[50] / Close[49] - 1 = 1/149\<close>;
  \<open>backtest_model\<close> attributes \<open>Close[1] / Close[0] - 1 = 1/100\<close>, because the second
  loop indexes the window by the position in the list of recorded predictions.
\<close>

theorem backtest_misattributes_after_skipped_rows:
  "first_attributed_return (example_predictor hundred_rows (example_model 0.7 1)) 252
     = Some (1 / 100) \<and>
   list_all (\<lambda>r. isnan_any (features r)) (take 49 hundred_rows) \<and>
   \<not> isnan_any (features (hundred_rows ! 49)) \<and>
   Close (hundred_rows ! 50) / Close (hundred_rows ! 49) - 1 = 1 / 149"
proof -
  let ?m = "example_model 0.7 1"
  let ?p = "example_predictor hundred_rows ?m"
  have bd: "tail_rows 252 (data ?p) = hundred_rows"
    by (simp add: tail_rows_def example_predictor_def length_hundred_rows)
  have bm: "best_model ?p = Some ?m"
    by (simp add: example_predictor_def)
  have skip: "foldl (backtest_step ?p ?m hundred_rows) ([], [], []) [1..<50] = ([], [], [])"
    by (rule backtest_fold_skip) (auto intro: hundred_rows_warmup)
  have step: "backtest_step ?p ?m hundred_rows ([], [], []) 50 = ([1], [1], [0.7])"
    by (simp add: backtest_step_def nth_hundred_rows example_row_def not_isnan_complete
        model_input_def example_predictor_def example_model_def)
  have split: "[1..<100] = [1..<50] @ 50 # [51..<100]"
    by (simp add: upt_conv_Cons [symmetric] upt_add_eq_append [of 1 50 50, simplified])
  obtain ps as qs where c: "backtest_collect ?p ?m hundred_rows = (ps, as, qs)"
    by (cases "backtest_collect ?p ?m hundred_rows") auto
  have "backtest_collect ?p ?m hundred_rows =
          foldl (backtest_step ?p ?m hundred_rows)
            (backtest_step ?p ?m hundred_rows
               (foldl (backtest_step ?p ?m hundred_rows) ([], [], []) [1..<50]) 50) [51..<100]"
    by (simp only: backtest_collect_def length_hundred_rows split foldl_append foldl_Cons)
  with c have "foldl (backtest_step ?p ?m hundred_rows) ([1], [1], [0.7]) [51..<100] = (ps, as, qs)"
    by (simp only: skip step)
  from backtest_fold_lengths [OF this]
  obtain ps2 qs2 where pq: "ps = 1 # ps2" "qs = 0.7 # qs2" by auto
  from backtest_model_returns [OF bm, of 252 ps as qs] c bd pq
  obtain r where r: "backtest_model ?p 252 = Inr (Some r)"
    and sr: "strategy_returns r =
       map (\<lambda>k. position_return (ps ! k) (qs ! k)
                  (Close (hundred_rows ! (k + 1)) / Close (hundred_rows ! k) - 1))
         [0..<length ps]"
    by auto
  have pos: "0 < length ps"
    using pq by simp
  have "strategy_returns r ! 0 =
          position_return (ps ! 0) (qs ! 0)
            (Close (hundred_rows ! (0 + 1)) / Close (hundred_rows ! 0) - 1)"
    unfolding sr using pos by (simp only: nth_map length_upt nth_upt add_0 diff_zero)
  also have "\<dots> = 1 / 100"
    by (simp add: pq position_return_def nth_hundred_rows example_row_def)
  finally have nth0: "strategy_returns r ! 0 = 1 / 100" .
  have "length (strategy_returns r) = length ps"
    by (simp add: sr)
  with pos obtain x xs where xs: "strategy_returns r = x # xs"
    by (cases "strategy_returns r") auto
  with nth0 have "x = 1 / 100" by simp
  with xs r have first: "first_attributed_return ?p 252 = Some (1 / 100)"
    by (simp add: first_attributed_return_def)
  have warm: "list_all (\<lambda>r. isnan_any (features r)) (take 49 hundred_rows)"
    by (simp add: list_all_length length_hundred_rows hundred_rows_warmup)
  have complete: "\<not> isnan_any (features (hundred_rows ! 49))"
    by (simp add: nth_hundred_rows example_row_def not_isnan_complete)
  have claimed: "Close (hundred_rows ! 50) / Close (hundred_rows ! 49) - 1 = 1 / 149"
    by (simp add: nth_hundred_rows example_row_def)
  from first warm complete claimed show ?thesis by simp
qed

text \<open>
  Claim C4. With a trained selected model and a complete latest feature row, for the class-1
  probability \<open>prob\<close> that the model produces, \<open>predict_next_day\<close> returns that
  probability with: bullish and high if \<open>prob > 0.75\<close>, bullish and medium if
  \<open>0.6 < prob \<le> 0.75\<close>, bearish and high if \<open>prob < 0.25\<close>, bearish and medium if
  \<open>0.25 \<le> prob < 0.4\<close>, and otherwise neutral, with medium if \<open>|prob - 0.5| > 0.05\<close>
  and low if not.
\<close>

theorem predict_next_day_mapping:
  assumes "best_model p = Some m"
    and "data p \<noteq> []"
    and "\<not> isnan_any (features (last (data p)))"
    and "model_input p (map the (features (last (data p)))) = Inr X"
    and "predict_proba m X = Inr prob"
  shows "probability (predict_next_day p) = prob \<and>
         (prediction (predict_next_day p), confidence (predict_next_day p)) =
           (if prob > 0.75 then (bullish, high)
            else if 0.6 < prob then (bullish, medium)
            else if prob < 0.25 then (bearish, high)
            else if prob < 0.4 then (bearish, medium)
            else if \<bar>prob - 0.5\<bar> > 0.05 then (neutral, medium)
            else (neutral, low))"
  using assms by (auto simp: predict_next_day_def iloc_last_def Let_def)

theorem predict_next_day_mapping_witness:
  "probability (predict_next_day (example_predictor three_rows (example_model 0.8 1))) = 0.8 \<and>
   (prediction (predict_next_day (example_predictor three_rows (example_model 0.8 1))),
    confidence (predict_next_day (example_predictor three_rows (example_model 0.8 1))))
     = (bullish, high)"
proof -
  let ?m = "example_model 0.8 1"
  let ?p = "example_predictor three_rows ?m"
  have 1: "best_model ?p = Some ?m" by (simp add: example_predictor_def)
  have 2: "data ?p \<noteq> []" by (simp add: example_predictor_def three_rows_def)
  have l: "features (last (data ?p)) = replicate 25 (Some 0)"
    by (simp add: example_predictor_def three_rows_def example_row_def)
  have 3: "\<not> isnan_any (features (last (data ?p)))"
    by (simp only: l not_isnan_complete not_False_eq_True)
  have 4: "model_input ?p (map the (features (last (data ?p)))) = Inr (replicate 25 0)"
    unfolding l by (simp add: model_input_def example_predictor_def)
  have 5: "predict_proba ?m (replicate 25 0) = Inr 0.8" by (simp add: example_model_def)
  from predict_next_day_mapping [OF 1 2 3 4 5] show ?thesis by simp
qed

text \<open>
  Claim C5. For every result that \<open>backtest_model\<close> returns with a non-empty sequence of
  per-step returns, the reported win rate is the number of strictly positive entries of
  that sequence divided by its length, and the reported total return is its sum.
\<close>

theorem backtest_aggregates:
  assumes "backtest_model p days_back = Inr (Some r)"
    and "strategy_returns r \<noteq> []"
  shows "backtest_result.win_rate r =
           real (length (filter (\<lambda>x. x > 0) (strategy_returns r)))
             / real (length (strategy_returns r)) \<and>
         total_return r = sum_list (strategy_returns r)"
  using assms
  by (auto simp: backtest_model_def Let_def split: option.splits prod.splits sum.splits if_splits)

theorem backtest_aggregates_witness:
  "backtest_model (example_predictor three_rows (example_model 0.7 1)) 252
     = Inr (Some three_rows_result) \<and>
   strategy_returns three_rows_result \<noteq> [] \<and>
   backtest_result.win_rate three_rows_result =
     real (length (filter (\<lambda>x. x > 0) (strategy_returns three_rows_result)))
       / real (length (strategy_returns three_rows_result)) \<and>
   total_return three_rows_result = sum_list (strategy_returns three_rows_result)"
proof -
  have h: "backtest_model (example_predictor three_rows (example_model 0.7 1)) 252
             = Inr (Some three_rows_result)"
    by (rule three_rows_backtest)
  have n: "strategy_returns three_rows_result \<noteq> []"
    by (simp add: three_rows_result_def)
  from backtest_aggregates [OF h n] h n show ?thesis by simp
qed

section \<open>Properties of the RSI columns\<close>

lemma rsi_feature_spike: "rsi_feature spike_closes ! 14 = Some 50"
  by (simp add: rsi_feature_def spike_closes_def diff_def rolling_mean_def window_def
      where_positive_def where_negative_def float_rsi_def mean_def Let_def)

lemma ta_rsi_spike: "ta_RSIIndicator_rsi spike_closes 14 ! 14 = Some (1300 / 27)"
  by (simp add: ta_RSIIndicator_rsi_def spike_closes_def diff_def ewm_mean_recursive_def
      where_positive_def where_negative_def Let_def)

lemma spec_rsi_spike: "spec_rsi spike_closes 14 = Some 50"
  by (simp add: spec_rsi_def spike_closes_def mean_def Let_def upt_conv_Cons)

lemma window_map_upt:
  assumes "w \<le> i + 1" and "i < n"
  shows "window w i (map f [0..<n]) = map f [i + 1 - w..<i + 1]"
  using assms by (simp add: window_def take_map drop_map take_upt drop_upt)

lemma length_diff [simp]: "length (diff xs) = length xs"
  by (simp add: diff_def)

lemma where_positive_diff:
  "where_positive (diff xs) =
     map (\<lambda>j. if j = 0 then 0 else if xs ! j - xs ! (j - 1) > 0 then xs ! j - xs ! (j - 1) else 0)
       [0..<length xs]"
  by (simp add: where_positive_def diff_def)

lemma where_negative_diff:
  "map uminus (where_negative (diff xs)) =
     map (\<lambda>j. if j = 0 then 0 else if xs ! j - xs ! (j - 1) < 0 then - (xs ! j - xs ! (j - 1)) else 0)
       [0..<length xs]"
  by (simp add: where_negative_def diff_def)

lemma length_rolling_mean [simp]: "length (rolling_mean w xs) = length xs"
  by (simp add: rolling_mean_def)

lemma rolling_mean_nth:
  assumes "0 < w" and "w \<le> i + 1" and "i < n"
  shows "rolling_mean w (map f [0..<n]) ! i = Some (mean (map f [i + 1 - w..<i + 1]))"
  using assms by (simp add: rolling_mean_def window_map_upt del: upt_Suc)

lemma rsi_feature_nth:
  assumes "13 \<le> i" and "i < length close"
  shows "rsi_feature close ! i =
           float_rsi
             (mean (map (\<lambda>j. if j = 0 then 0 else if close ! j - close ! (j - 1) > 0
                               then close ! j - close ! (j - 1) else 0) [i - 13..<i + 1]))
             (mean (map (\<lambda>j. if j = 0 then 0 else if close ! j - close ! (j - 1) < 0
                               then - (close ! j - close ! (j - 1)) else 0) [i - 13..<i + 1]))"
proof -
  have g: "rolling_mean 14 (where_positive (diff close)) ! i =
      Some (mean (map (\<lambda>j. if j = 0 then 0 else if close ! j - close ! (j - 1) > 0
                               then close ! j - close ! (j - 1) else 0) [i - 13..<i + 1]))"
    unfolding where_positive_diff
    using rolling_mean_nth [of 14 i "length close"] assms by simp
  have l: "rolling_mean 14 (map uminus (where_negative (diff close))) ! i =
      Some (mean (map (\<lambda>j. if j = 0 then 0 else if close ! j - close ! (j - 1) < 0
                               then - (close ! j - close ! (j - 1)) else 0) [i - 13..<i + 1]))"
    unfolding where_negative_diff
    using rolling_mean_nth [of 14 i "length close"] assms by simp
  have len: "length (where_positive (diff close)) = length close"
    "length (where_negative (diff close)) = length close"
    by (simp_all add: where_positive_def where_negative_def)
  show ?thesis
    using assms by (simp add: rsi_feature_def Let_def len g l del: upt_Suc)
qed

text \<open>
  Claim C2, as stated, fails. On the 15 closes \<open>1, 2, 1, \<dots>, 1\<close> both columns are
  defined in row 14: the feature of the predictive model is 50 (simple 14-row means of the
  gains and of the losses, both 1/14), the RSI of the indicator engine is 1300/27
  (exponentially smoothed gains and losses, in the ratio 13/14).
\<close>

theorem rsi_feature_differs_from_indicator:
  "calculate_rsi spike_closes 14 = Inr (ta_RSIIndicator_rsi spike_closes 14) \<and>
   ta_RSIIndicator_rsi spike_closes 14 ! 14 = Some (1300 / 27) \<and>
   rsi_feature spike_closes ! 14 = Some 50"
  by (simp add: calculate_rsi_def ta_rsi_spike rsi_feature_spike)

text \<open>
  Claim C2, amended. The RSI feature of the predictive model is the RSI of section 4.1 of
  the specification (average gain over average loss in a simple 14-day rolling window of
  price deltas, 100 when the losses are zero) at every row where both are defined.
\<close>

theorem rsi_feature_follows_spec:
  assumes "i < length close"
    and "spec_rsi close i = Some w"
    and "rsi_feature close ! i \<noteq> None"
  shows "rsi_feature close ! i = Some w"
proof -
  let ?deltas = "map (\<lambda>j. close ! j - close ! (j - 1)) [i - 13..<Suc i]"
  from assms(2) have i: "14 \<le> i" by (auto simp: spec_rsi_def split: if_splits)
  have eqp: "map (\<lambda>j. if j = 0 then 0 else if close ! j - close ! (j - 1) > 0
                               then close ! j - close ! (j - 1) else 0) [i - 13..<i + 1]
              = map (\<lambda>d. if d > 0 then d else 0) ?deltas"
    using i by (auto simp del: upt_Suc)
  have eqn: "map (\<lambda>j. if j = 0 then 0 else if close ! j - close ! (j - 1) < 0
                               then - (close ! j - close ! (j - 1)) else 0) [i - 13..<i + 1]
              = map (\<lambda>d. if d < 0 then - d else 0) ?deltas"
    using i by (auto simp del: upt_Suc)
  have "13 \<le> i" using i by simp
  from rsi_feature_nth [OF this assms(1)]
  have f: "rsi_feature close ! i =
           float_rsi (mean (map (\<lambda>d. if d > 0 then d else 0) ?deltas))
                     (mean (map (\<lambda>d. if d < 0 then - d else 0) ?deltas))"
    by (simp only: eqp eqn)
  have s: "spec_rsi close i =
      (if mean (map (\<lambda>d. if d < 0 then - d else 0) ?deltas) = 0 then Some 100
       else Some (100 - 100 / (1 + mean (map (\<lambda>d. if d > 0 then d else 0) ?deltas)
                                     / mean (map (\<lambda>d. if d < 0 then - d else 0) ?deltas))))"
    using i assms(1) by (simp add: spec_rsi_def Let_def del: upt_Suc)
  from assms(2,3) show ?thesis
    unfolding f s by (auto simp: float_rsi_def split: if_splits)
qed

theorem rsi_feature_follows_spec_witness:
  "14 < length spike_closes \<and> spec_rsi spike_closes 14 = Some 50 \<and>
   rsi_feature spike_closes ! 14 \<noteq> None \<and> rsi_feature spike_closes ! 14 = Some 50"
proof -
  have 1: "14 < length spike_closes" by (simp add: spike_closes_def)
  have 3: "rsi_feature spike_closes ! 14 \<noteq> None" by (simp add: rsi_feature_spike)
  from rsi_feature_follows_spec [OF 1 spec_rsi_spike 3] 1 spec_rsi_spike 3
  show ?thesis by simp
qed

section \<open>Properties of the moving averages\<close>

lemma length_ewm_mean_adjust [simp]: "length (ewm_mean_adjust a xs) = length xs"
  by (simp add: ewm_mean_adjust_def)

lemma moving_averages_loop_columns:
  assumes "\<forall>p\<in>set periods. 1 \<le> p"
  shows "\<exists>r. moving_averages_loop periods f result = Inr r \<and> bars r = bars result \<and>
           derived r =
             (\<lambda>c. case c of
                MA p \<Rightarrow> if p \<in> set periods \<and> p \<le> int (length (bars f))
                         then Some (rolling_mean (nat p) (map Close (bars f)))
                         else derived result (MA p)
              | EMA p \<Rightarrow> if p \<in> set periods \<and> p \<le> int (length (bars f))
                          then Some (ewm_mean_adjust (2 / (real_of_int p + 1)) (map Close (bars f)))
                          else derived result (EMA p)
              | Name n \<Rightarrow> derived result (Name n))"
  using assms
proof (induction periods arbitrary: result)
  case Nil
  then show ?case by (auto split: column.splits)
next
  case (Cons p periods)
  then have p: "1 \<le> p" and rest: "\<forall>q\<in>set periods. 1 \<le> q" by auto
  show ?case
  proof (cases "p \<le> int (length (bars f))")
    case False
    with Cons.IH [OF rest, of result] show ?thesis
      by (auto split: column.splits intro!: ext)
  next
    case True
    let ?res = "result\<lparr>derived := (derived result)
        (MA p \<mapsto> rolling_mean (nat p) (map Close (bars f)),
         EMA p \<mapsto> ewm_mean_adjust (2 / (real_of_int p + 1)) (map Close (bars f)))\<rparr>"
    have step: "moving_averages_loop (p # periods) f result = moving_averages_loop periods f ?res"
      using True p by (simp add: series_rolling_mean_def series_ewm_mean_def)
    from Cons.IH [OF rest, of ?res] obtain r where
      r: "moving_averages_loop periods f ?res = Inr r" "bars r = bars ?res"
      and d: "derived r =
             (\<lambda>c. case c of
                MA q \<Rightarrow> if q \<in> set periods \<and> q \<le> int (length (bars f))
                         then Some (rolling_mean (nat q) (map Close (bars f)))
                         else derived ?res (MA q)
              | EMA q \<Rightarrow> if q \<in> set periods \<and> q \<le> int (length (bars f))
                          then Some (ewm_mean_adjust (2 / (real_of_int q + 1)) (map Close (bars f)))
                          else derived ?res (EMA q)
              | Name n \<Rightarrow> derived ?res (Name n))"
      by blast
    show ?thesis
      unfolding step using r True
      by (auto simp: d split: column.splits intro!: ext)
  qed
qed

text \<open>
  Claim C3, as stated, fails. With three rows of history and the default periods
  \<open>5, 10, 20, 50, 200\<close> the guard \<open>period <= len(self.data)\<close> skips every period:
  the result is the input frame, and the column \<open>MA_5\<close> is absent from it, not present
  and all-missing.
\<close>

theorem short_history_column_absent:
  "calculate_moving_averages default_periods short_frame = Inr short_frame \<and>
   length (bars short_frame) = 3 \<and> derived short_frame (MA 5) = None"
  by (simp add: calculate_moving_averages_def default_periods_def short_frame_def)

text \<open>
  Claim C3, amended. For every frame and all configured periods (each at least 1),
  \<open>calculate_moving_averages\<close> raises no error and returns a frame with the rows of the
  input. For a period not longer than the history the columns \<open>MA\<close> and \<open>EMA\<close> of that
  period are present with one entry per row; the \<open>MA\<close> entry is missing in the first
  \<open>period - 1\<close> rows and the mean of the last \<open>period\<close> closes after them, and no
  \<open>EMA\<close> entry is missing. For a period longer than the history neither column is
  added: each is as in the input frame, so absent when the input lacks it.
\<close>

theorem moving_averages_columns:
  assumes "\<forall>p\<in>set periods. 1 \<le> p"
  shows "\<exists>r. calculate_moving_averages periods f = Inr r \<and> bars r = bars f \<and>
           (\<forall>p\<in>set periods.
              if p \<le> int (length (bars f))
              then (\<exists>ma ema. derived r (MA p) = Some ma \<and> derived r (EMA p) = Some ema \<and>
                      length ma = length (bars f) \<and> length ema = length (bars f) \<and>
                      (\<forall>i<length (bars f).
                         ma ! i = (if i + 1 < nat p then None
                                   else Some (mean (window (nat p) i (map Close (bars f))))) \<and>
                         ema ! i \<noteq> None))
              else derived r (MA p) = derived f (MA p) \<and> derived r (EMA p) = derived f (EMA p))"
proof -
  from moving_averages_loop_columns [OF assms, of f f] obtain r where
    r: "moving_averages_loop periods f f = Inr r" "bars r = bars f"
    and d: "derived r =
             (\<lambda>c. case c of
                MA p \<Rightarrow> if p \<in> set periods \<and> p \<le> int (length (bars f))
                         then Some (rolling_mean (nat p) (map Close (bars f)))
                         else derived f (MA p)
              | EMA p \<Rightarrow> if p \<in> set periods \<and> p \<le> int (length (bars f))
                          then Some (ewm_mean_adjust (2 / (real_of_int p + 1)) (map Close (bars f)))
                          else derived f (EMA p)
              | Name n \<Rightarrow> derived f (Name n))"
    by blast
  have "\<forall>p\<in>set periods.
              if p \<le> int (length (bars f))
              then (\<exists>ma ema. derived r (MA p) = Some ma \<and> derived r (EMA p) = Some ema \<and>
                      length ma = length (bars f) \<and> length ema = length (bars f) \<and>
                      (\<forall>i<length (bars f).
                         ma ! i = (if i + 1 < nat p then None
                                   else Some (mean (window (nat p) i (map Close (bars f))))) \<and>
                         ema ! i \<noteq> None))
              else derived r (MA p) = derived f (MA p) \<and> derived r (EMA p) = derived f (EMA p)"
  proof
    fix p assume p: "p \<in> set periods"
    with assms have "1 \<le> p" by auto
    then show "if p \<le> int (length (bars f))
              then (\<exists>ma ema. derived r (MA p) = Some ma \<and> derived r (EMA p) = Some ema \<and>
                      length ma = length (bars f) \<and> length ema = length (bars f) \<and>
                      (\<forall>i<length (bars f).
                         ma ! i = (if i + 1 < nat p then None
                                   else Some (mean (window (nat p) i (map Close (bars f))))) \<and>
                         ema ! i \<noteq> None))
              else derived r (MA p) = derived f (MA p) \<and> derived r (EMA p) = derived f (EMA p)"
      using p by (auto simp: d rolling_mean_def ewm_mean_adjust_def)
  qed
  with r show ?thesis by (auto simp: calculate_moving_averages_def)
qed

theorem moving_averages_columns_witness:
  "\<exists>r ma ema. calculate_moving_averages [2, 5] short_frame = Inr r \<and>
     bars r = bars short_frame \<and>
     derived r (MA 2) = Some ma \<and> derived r (EMA 2) = Some ema \<and>
     length ma = 3 \<and> length ema = 3 \<and>
     ma ! 0 = None \<and> ma ! 1 = Some (3 / 2) \<and> ma ! 2 = Some (5 / 2) \<and>
     derived r (MA 5) = None \<and> derived r (EMA 5) = None"
proof -
  have pos: "\<forall>p\<in>set [2, 5 :: int]. 1 \<le> p" by simp
  from moving_averages_columns [OF pos, of short_frame] obtain r where
    r: "calculate_moving_averages [2, 5] short_frame = Inr r" "bars r = bars short_frame"
    and cols: "\<forall>p\<in>set [2, 5].
              if p \<le> int (length (bars short_frame))
              then (\<exists>ma ema. derived r (MA p) = Some ma \<and> derived r (EMA p) = Some ema \<and>
                      length ma = length (bars short_frame) \<and>
                      length ema = length (bars short_frame) \<and>
                      (\<forall>i<length (bars short_frame).
                         ma ! i = (if i + 1 < nat p then None
                                   else Some (mean (window (nat p) i
                                                      (map Close (bars short_frame))))) \<and>
                         ema ! i \<noteq> None))
              else derived r (MA p) = derived short_frame (MA p) \<and>
                   derived r (EMA p) = derived short_frame (EMA p)"
    by blast
  have len: "length (bars short_frame) = 3" by (simp add: short_frame_def)
  from cols have two: "\<exists>ma ema. derived r (MA 2) = Some ma \<and> derived r (EMA 2) = Some ema \<and>
                      length ma = 3 \<and> length ema = 3 \<and>
                      (\<forall>i<3. ma ! i = (if i + 1 < 2 then None
                                   else Some (mean (window 2 i (map Close (bars short_frame))))))"
    by (auto simp: len)
  then obtain ma ema where m: "derived r (MA 2) = Some ma" "derived r (EMA 2) = Some ema"
      "length ma = 3" "length ema = 3"
    and nth: "\<forall>i<3. ma ! i = (if i + 1 < 2 then None
                                   else Some (mean (window 2 i (map Close (bars short_frame)))))"
    by blast
  from nth have "ma ! 0 = None" "ma ! 1 = Some (3 / 2)" "ma ! 2 = Some (5 / 2)"
    by (simp_all add: short_frame_def window_def mean_def)
  moreover from cols have "derived r (MA 5) = None" "derived r (EMA 5) = None"
    by (simp_all add: len) (simp_all add: short_frame_def)
  ultimately show ?thesis using r m by blast
qed

section \<open>Properties of the seasonal buckets\<close>

lemma prepare_two_bars: "prepare_data two_bars = two_rows"
  by (simp add: prepare_data_def two_bars_def two_rows_def pct_change_def pricebar.extend_def)

lemma map_of_singletons:
  "map_of (concat (map (\<lambda>k. if P k then [(k, g k)] else []) ks)) m =
     (if m \<in> set ks \<and> P m then Some (g m) else None)"
  by (induction ks) auto

lemma analyze_monthly_seasonality_lookup:
  "analyze_monthly_seasonality rows m =
     (if 1 \<le> m \<and> m \<le> 12 \<and> filter (\<lambda>r. month (date r) = m) rows \<noteq> []
      then Some (month_bucket (filter (\<lambda>r. month (date r) = m) rows) m) else None)"
  unfolding analyze_monthly_seasonality_def Let_def
  using map_of_singletons [of "\<lambda>k. filter (\<lambda>r. month (date r) = k) rows \<noteq> []"
      "\<lambda>k. month_bucket (filter (\<lambda>r. month (date r) = k) rows) k" "[1..<13]" m]
  by auto

lemma monthly_two_bars:
  "analyze_monthly_seasonality (prepare_data two_bars) 1 = Some january_of_two_bars"
  unfolding prepare_two_bars analyze_monthly_seasonality_lookup
  by (simp add: two_rows_def
      month_bucket_def series_mean_def series_median_def series_std_def positive_count_def
      positive_fraction_def valid_def mean_def pct_change_def month_names_def
      january_of_two_bars_def Let_def)

lemma valid_two_rows: "valid [None, Some (1 / 10)] = [1 / 10]"
  by (simp add: valid_def)

lemma effect_bucket_two_rows: "effect_bucket [None, Some (1 / 10)] = other_days_of_two_bars"
  unfolding effect_bucket_def valid_two_rows Let_def
  by (simp add: series_mean_def series_median_def series_std_def positive_count_def
      positive_fraction_def valid_def mean_def other_days_of_two_bars_def)

lemma month_end_two_bars:
  "map_option snd (analyze_month_end_effect (prepare_data two_bars)) = Some other_days_of_two_bars"
  unfolding prepare_two_bars
  by (simp add: analyze_month_end_effect_def two_rows_def days_in_month_def is_leap_def Let_def
      effect_bucket_two_rows)

text \<open>
  The first row of a frame has no daily return. In its month bucket it is left out of the
  mean, the median, the standard deviation and the count of positive days, and it is
  counted in \<open>total_days\<close> and in the denominator of \<open>win_rate\<close>; the month-end
  analysis drops it from every statistic.
\<close>

lemma valid_missing_first: "valid (None # s) = valid s"
  by (simp add: valid_def)

lemma month_bucket_counts_missing_first:
  assumes "Daily_Return r = None"
  shows "month_stats.avg_return (month_bucket (r # rs) m) = series_mean (map Daily_Return rs)"
    and "month_stats.median_return (month_bucket (r # rs) m) = series_median (map Daily_Return rs)"
    and "month_stats.std_return (month_bucket (r # rs) m) = series_std (map Daily_Return rs)"
    and "month_stats.positive_days (month_bucket (r # rs) m) = positive_count (map Daily_Return rs)"
    and "month_stats.total_days (month_bucket (r # rs) m) = Suc (length rs)"
    and "month_stats.win_rate (month_bucket (r # rs) m) =
           Some (real (positive_count (map Daily_Return rs)) / real (Suc (length rs)))"
  using assms
  by (simp_all add: month_bucket_def series_mean_def series_median_def series_std_def
      positive_count_def positive_fraction_def valid_missing_first)

lemma effect_bucket_drops_missing_first: "effect_bucket (None # days) = effect_bucket days"
  by (simp add: effect_bucket_def valid_missing_first)

lemma prepare_data_first_row:
  "prepare_data (b # bs) \<noteq> [] \<and> Daily_Return (hd (prepare_data (b # bs))) = None \<and>
   date (hd (prepare_data (b # bs))) = date b"
  by (simp add: prepare_data_def pct_change_def upt_conv_Cons pricebar.extend_def)

lemma first_row_in_its_month_bucket:
  assumes "1 \<le> month (date b)" and "month (date b) \<le> 12"
  shows "\<exists>s later. analyze_monthly_seasonality (prepare_data (b # bs)) (month (date b)) = Some s \<and>
           later = filter (\<lambda>r. month (date r) = month (date b)) (tl (prepare_data (b # bs))) \<and>
           month_stats.avg_return s = series_mean (map Daily_Return later) \<and>
           month_stats.median_return s = series_median (map Daily_Return later) \<and>
           month_stats.std_return s = series_std (map Daily_Return later) \<and>
           month_stats.positive_days s = positive_count (map Daily_Return later) \<and>
           month_stats.total_days s = Suc (length later) \<and>
           month_stats.win_rate s =
             Some (real (positive_count (map Daily_Return later)) / real (Suc (length later)))"
proof -
  obtain r0 rest where pd: "prepare_data (b # bs) = r0 # rest"
    using prepare_data_first_row [of b bs] by (cases "prepare_data (b # bs)") auto
  with prepare_data_first_row [of b bs] have r0: "Daily_Return r0 = None" "date r0 = date b"
    by auto
  let ?later = "filter (\<lambda>r. month (date r) = month (date b)) rest"
  have f: "filter (\<lambda>r. month (date r) = month (date b)) (prepare_data (b # bs)) = r0 # ?later"
    by (simp add: pd r0)
  have "analyze_monthly_seasonality (prepare_data (b # bs)) (month (date b)) =
          Some (month_bucket (r0 # ?later) (month (date b)))"
    unfolding analyze_monthly_seasonality_lookup f using assms by simp
  with month_bucket_counts_missing_first [OF r0(1), of ?later "month (date b)"] pd
  show ?thesis by simp
qed

text \<open>
  Claim C6 (the part the code breaks). The claim excludes the first row from every
  aggregate of its month bucket, total days and win rate included. For two January days
  with closes 100 and 110 the only defined daily return is 1/10, so the claim asks for one
  day and a win rate of 1; \<open>analyze_monthly_seasonality\<close> reports 2 days and a win rate
  of 1/2, while \<open>analyze_month_end_effect\<close>, which drops missing returns first, reports
  1 day and a win rate of 1 for the same rows.
\<close>

theorem first_row_counted_in_month_bucket:
  "analyze_monthly_seasonality (prepare_data two_bars) 1 = Some january_of_two_bars \<and>
   month_stats.total_days january_of_two_bars = 2 \<and>
   month_stats.win_rate january_of_two_bars = Some (1 / 2) \<and>
   map_option snd (analyze_month_end_effect (prepare_data two_bars))
     = Some other_days_of_two_bars \<and>
   effect_stats.total_days other_days_of_two_bars = 1 \<and>
   effect_stats.win_rate other_days_of_two_bars = Some 1"
  using monthly_two_bars month_end_two_bars
  by (simp add: january_of_two_bars_def other_days_of_two_bars_def)

section \<open>Properties of the orchestrator\<close>


lemma latest_trend_of_empty: "latest_trend_of signals = Inr latest \<Longrightarrow> latest = []"
  by (auto simp: latest_trend_of_def split: if_splits)

lemma calculate_trend_signals_keys:
  "calculate_trend_signals ta rows = Inr signals \<Longrightarrow>
     map fst signals = [''ma_trend_short'', ''ma_trend_medium'', ''ma_trend_long'',
       ''overall_trend'', ''rsi_oversold'', ''rsi_overbought'', ''macd_bullish'', ''macd_bearish'']"
  by (auto simp: calculate_trend_signals_def Let_def split: sum.splits)

lemma latest_trend_of_signals:
  "calculate_trend_signals ta rows = Inr signals \<Longrightarrow> latest_trend_of signals = Inr []"
  by (drule calculate_trend_signals_keys) (auto simp: latest_trend_of_def)

lemma example_technical_analysis:
  "perform_technical_analysis example_collaborators two_bars = Result_dict example_technical_result"
proof -
  have "calculate_rsi (map Close two_bars) 14 = Inr (ta_RSIIndicator_rsi (map Close two_bars) 14)"
    by (simp add: calculate_rsi_def)
  then obtain signals where s: "calculate_trend_signals example_macd two_bars = Inr signals"
    by (simp add: calculate_trend_signals_def Let_def example_macd_def)
  from latest_trend_of_signals [OF s] s show ?thesis
    by (simp add: perform_technical_analysis_def technical_body_def catch_def
        example_collaborators_def example_technical_result_def)
qed


lemma get_prediction_gate:
  assumes "get_stock_data c tick None None = Inr stock_data"
  shows "stock_data = [] \<Longrightarrow> get_prediction c tick = (0, Error_dict (''No data found for '' @ tick))"
    and "stock_data \<noteq> [] \<Longrightarrow> length stock_data < 100 \<Longrightarrow>
           get_prediction c tick = (0, Error_dict insufficient_data)"
    and "100 \<le> length stock_data \<Longrightarrow> fst (get_prediction c tick) = 1"
  using assms by (auto simp: get_prediction_def)

lemma insufficient_data_distinct: "insufficient_data \<noteq> ''No data found for '' @ tick"
  by (simp add: insufficient_data_def)

text \<open>
  Claim C10. Whenever the technical-analysis step of the orchestrator returns without
  error, the entry \<open>trend_signals\<close> of its result is the empty mapping: the signals are a
  dict with eight keys, so the guard \<open>if not trend_signals\<close> never holds and the latest
  row is never extracted.
\<close>

theorem trend_signals_never_populated:
  assumes "perform_technical_analysis c stock_data = Result_dict r"
  shows "trend_signals r = []"
  using assms
  by (auto simp: perform_technical_analysis_def technical_body_def catch_def
      split: sum.splits dest: latest_trend_of_empty)

theorem trend_signals_never_populated_witness:
  "perform_technical_analysis example_collaborators two_bars = Result_dict example_technical_result \<and>
   trend_signals example_technical_result = []"
  using trend_signals_never_populated [OF example_technical_analysis] example_technical_analysis
  by simp





end
